theory Spec2Isabelle
  imports Complex_Main "HOL-Library.Word" "HOL-Library.AList"
begin

unbundle bit_operations_syntax

section \<open>Python values used by the model\<close>

text \<open>
  A \<^verbatim>\<open>bytes\<close> object is a list of 8-bit words; indexing it yields a Python
  \<^verbatim>\<open>int\<close> in 0..255, read here with \<^term>\<open>unat\<close>. Python integers are unbounded:
  counts and offsets are \<^typ>\<open>nat\<close>, addresses are \<^typ>\<open>int\<close>. Every exception the
  modelled code can raise is a value of \<open>py_error\<close>; \<open>FormatError\<close> is the error
  type the specification names for the ingestor.
\<close>

type_synonym byte = "8 word"
type_synonym bytes = "byte list"

datatype py_error = IndexError | AttributeError | UnboundLocalError | FormatError

definition digit_char :: "nat \<Rightarrow> char" where
  "digit_char n = ''0123456789ABCDEF'' ! n"

text \<open>\<^verbatim>\<open>str(n)\<close> for a non-negative integer.\<close>

function str_nat :: "nat \<Rightarrow> string" where
  "str_nat n = (if n < 10 then [digit_char n] else str_nat (n div 10) @ [digit_char (n mod 10)])"
  by pat_completeness auto
termination
  by (relation "measure id") auto

declare str_nat.simps [simp del]

text \<open>Upper-case hexadecimal digits of a non-negative integer (\<^verbatim>\<open>format(n, 'X')\<close>).\<close>

function hex_nat :: "nat \<Rightarrow> string" where
  "hex_nat n = (if n < 16 then [digit_char n] else hex_nat (n div 16) @ [digit_char (n mod 16)])"
  by pat_completeness auto
termination
  by (relation "measure id") auto

declare hex_nat.simps [simp del]

definition zfill :: "nat \<Rightarrow> string \<Rightarrow> string" where
  "zfill w s = replicate (w - length s) (CHR ''0'') @ s"

text \<open>\<^verbatim>\<open>format(n, '0wX')\<close>: zero padding to width \<open>w\<close>, the sign counted in the width.\<close>

definition fmt_X :: "nat \<Rightarrow> int \<Rightarrow> string" where
  "fmt_X w n = (if n < 0 then CHR ''-'' # zfill (w - 1) (hex_nat (nat (- n)))
                else zfill w (hex_nat (nat n)))"

text \<open>\<^verbatim>\<open>bytes.hex().upper()\<close>: two hexadecimal digits per byte.\<close>

definition hex_upper :: "bytes \<Rightarrow> string" where
  "hex_upper bs = concat (map (\<lambda>b. fmt_X 2 (uint b)) bs)"

text \<open>\<^verbatim>\<open>struct.unpack('>I', b)[0]\<close> and \<^verbatim>\<open>struct.unpack('>i', b)[0]\<close> on a 4-byte slice.\<close>

definition be_unsigned :: "bytes \<Rightarrow> nat" where
  "be_unsigned bs = foldl (\<lambda>acc b. acc * 256 + unat b) 0 bs"

definition be_signed32 :: "bytes \<Rightarrow> int" where
  "be_signed32 bs = (let u = int (be_unsigned bs) in if u < 2 ^ 31 then u else u - 2 ^ 32)"

text \<open>Python slicing \<^verbatim>\<open>data[a:b]\<close> for non-negative bounds.\<close>

definition py_slice :: "'a list \<Rightarrow> nat \<Rightarrow> nat \<Rightarrow> 'a list" where
  "py_slice xs a b = take (b - a) (drop a xs)"

section \<open>Intermediate representation (ir.py)\<close>

datatype Confidence = HIGH | MEDIUM | LOW

datatype InstructionFormat =
  RR | RX | RS | SI | SS | RRE | RXE | RXY | RSY | RIL | RIE | SSE | FMT_UNKNOWN

datatype BlockType = ENTRY | NORMAL | CALL | RETURN | BRANCH | BT_UNKNOWN

record Instruction =
  address :: int
  raw_bytes :: bytes
  hex_bytes :: string
  mnemonic :: string
  operands :: "string list"
  format :: InstructionFormat
  synthetic_label :: "string option"
  is_branch :: bool
  is_call :: bool
  is_return :: bool
  branch_target :: "int option"
  annotation :: "string option"
  confidence :: Confidence

section \<open>NativeDecoder (disassembler.py)\<close>

text \<open>The class-level dictionaries. Neither literal repeats a key, so the first match
  of \<^term>\<open>map_of\<close> is the dictionary's value.\<close>

definition OPCODE_LENGTHS :: "(nat \<times> nat) list" where
  "OPCODE_LENGTHS = [
    (0x00, 2), (0x01, 2), (0x02, 2), (0x03, 2), (0x04, 2), (0x05, 2), (0x06, 2), (0x07, 2),
    (0x08, 2), (0x09, 2), (0x0A, 2), (0x0B, 2), (0x0C, 2), (0x0D, 2), (0x0E, 2), (0x0F, 2),
    (0x10, 2), (0x11, 2), (0x12, 2), (0x13, 2), (0x14, 2), (0x15, 2), (0x16, 2), (0x17, 2),
    (0x18, 2), (0x19, 2), (0x1A, 2), (0x1B, 2), (0x1C, 2), (0x1D, 2), (0x1E, 2), (0x1F, 2),
    (0x40, 4), (0x41, 4), (0x42, 4), (0x43, 4), (0x44, 4), (0x45, 4), (0x46, 4), (0x47, 4),
    (0x48, 4), (0x49, 4), (0x4A, 4), (0x4B, 4), (0x4C, 4), (0x4D, 4), (0x4E, 4), (0x4F, 4),
    (0x50, 4), (0x51, 4), (0x54, 4), (0x55, 4), (0x56, 4), (0x57, 4), (0x58, 4), (0x59, 4),
    (0x5A, 4), (0x5B, 4), (0x5C, 4), (0x5D, 4), (0x5E, 4), (0x5F, 4),
    (0x86, 4), (0x87, 4), (0x88, 4), (0x89, 4), (0x8A, 4), (0x8B, 4), (0x8C, 4), (0x8D, 4),
    (0x8E, 4), (0x8F, 4), (0x90, 4), (0x91, 4), (0x92, 4), (0x94, 4), (0x95, 4), (0x96, 4),
    (0x97, 4), (0x98, 4), (0x99, 4), (0x9A, 4), (0x9B, 4),
    (0xD0, 6), (0xD1, 6), (0xD2, 6), (0xD3, 6), (0xD4, 6), (0xD5, 6), (0xD6, 6), (0xD7, 6),
    (0xD9, 6), (0xDA, 6), (0xDB, 6), (0xDC, 6), (0xDD, 6), (0xDE, 6), (0xDF, 6),
    (0xF0, 6), (0xF1, 6), (0xF2, 6), (0xF3, 6), (0xF8, 6), (0xF9, 6), (0xFA, 6), (0xFB, 6),
    (0xFC, 6), (0xFD, 6),
    (0xA5, 4), (0xA7, 4), (0xB2, 4), (0xB3, 4), (0xB9, 4),
    (0xC0, 6), (0xC2, 6), (0xC4, 6), (0xC6, 6), (0xC8, 6),
    (0xE3, 6), (0xE5, 4), (0xEB, 6), (0xEC, 6), (0xED, 6)]"

definition MNEMONICS :: "(nat \<times> string) list" where
  "MNEMONICS = [
    (0x05, ''BALR''), (0x0D, ''BASR''), (0x07, ''BCR''), (0x47, ''BC''),
    (0x18, ''LR''), (0x58, ''L''), (0x50, ''ST''), (0x90, ''STM''), (0x98, ''LM''),
    (0x41, ''LA''), (0x1A, ''AR''), (0x5A, ''A''), (0x1B, ''SR''), (0x5B, ''S''),
    (0x12, ''LTR''), (0x55, ''CL''), (0x95, ''CLI''), (0x15, ''CLR''),
    (0x19, ''CR''), (0x59, ''C''), (0x89, ''SLL''), (0x88, ''SRL''),
    (0x13, ''LCR''), (0x11, ''LNR''), (0x10, ''LPR''), (0x14, ''NR''),
    (0x16, ''OR''), (0x17, ''XR''), (0x54, ''N''), (0x56, ''O''), (0x57, ''X''),
    (0x96, ''OI''), (0x94, ''NI''), (0x97, ''XI''), (0x92, ''MVI''),
    (0x43, ''IC''), (0x42, ''STC''), (0x44, ''EX''), (0x45, ''BAL''),
    (0x46, ''BCT''), (0x8E, ''SRDA''), (0x8C, ''SRDL''), (0x8D, ''SLDA''),
    (0x86, ''BXH''), (0x87, ''BXLE''), (0xD2, ''MVC''), (0xD5, ''CLC''),
    (0xDC, ''TR''), (0xDD, ''TRT''), (0xD1, ''MVN''), (0xD3, ''MVZ''),
    (0xF1, ''MVO''), (0xF2, ''PACK''), (0xF3, ''UNPK''), (0xD7, ''XC''),
    (0xD6, ''OC''), (0xD4, ''NC''), (0xD9, ''MVCK''), (0xDA, ''MVCP''),
    (0xDB, ''MVCS''), (0xDE, ''ED''), (0xDF, ''EDMK''), (0xFA, ''AP''),
    (0xFB, ''SP''), (0xF8, ''ZAP''), (0xF9, ''CP''), (0xFC, ''MP''), (0xFD, ''DP'')]"

definition get_instruction_length :: "nat \<Rightarrow> nat" where
  "get_instruction_length opcode =
     (if opcode \<in> set [0xB2, 0xB3, 0xB9] then 4
      else if opcode \<in> set [0xE3, 0xEB, 0xEC, 0xED] then 6
      else if opcode \<in> set [0xC0, 0xC2, 0xC4, 0xC6, 0xC8] then 6
      else (case map_of OPCODE_LENGTHS opcode of Some n \<Rightarrow> n | None \<Rightarrow> 2))"

text \<open>\<open>byte_at bs i\<close> is \<^verbatim>\<open>bs[i]\<close>; every use below is under a test of
  \<open>length bs\<close> that puts \<open>i\<close> in range.\<close>

definition byte_at :: "bytes \<Rightarrow> nat \<Rightarrow> nat" where
  "byte_at bs i = unat (bs ! i)"

text \<open>The base-displacement pair \<^verbatim>\<open>(b[i] >> 4) & 0xF\<close> and
  \<^verbatim>\<open>((b[i] & 0xF) << 8) | b[i+1]\<close>.\<close>

definition hi_nibble :: "nat \<Rightarrow> nat" where
  "hi_nibble b = drop_bit 4 b AND 0xF"

definition lo_nibble :: "nat \<Rightarrow> nat" where
  "lo_nibble b = b AND 0xF"

definition disp12 :: "nat \<Rightarrow> nat \<Rightarrow> nat" where
  "disp12 b c = push_bit 8 (b AND 0xF) OR c"

text \<open>\<^verbatim>\<open>f"{d}({b})"\<close> and \<^verbatim>\<open>f"{d}({x},{b})"\<close>.\<close>

definition fmt_db :: "nat \<Rightarrow> nat \<Rightarrow> string" where
  "fmt_db d b = str_nat d @ ''('' @ str_nat b @ '')''"

definition fmt_dxb :: "nat \<Rightarrow> nat \<Rightarrow> nat \<Rightarrow> string" where
  "fmt_dxb d x b = str_nat d @ ''('' @ str_nat x @ '','' @ str_nat b @ '')''"

definition fmt_imm :: "nat \<Rightarrow> nat \<Rightarrow> string" where
  "fmt_imm w i = ''X'' @ [CHR 0x27] @ fmt_X w (int i) @ [CHR 0x27]"

text \<open>\<^verbatim>\<open>_decode_instruction_details\<close>. The first statement reads
  \<^verbatim>\<open>inst_bytes[0]\<close>, which raises \<^verbatim>\<open>IndexError\<close> on an empty slice.\<close>

definition decode_instruction_details ::
  "bytes \<Rightarrow> py_error + (string \<times> string list \<times> InstructionFormat)" where
  "decode_instruction_details inst_bytes =
     (if inst_bytes = [] then Inl IndexError
      else
        let opcode = byte_at inst_bytes 0;
            len = length inst_bytes;
            mnem = (case map_of MNEMONICS opcode of Some m \<Rightarrow> m | None \<Rightarrow> ''UNKNOWN'')
        in Inr (
          if len = 2 then
            (mnem, [str_nat (hi_nibble (byte_at inst_bytes 1)),
                    str_nat (lo_nibble (byte_at inst_bytes 1))], RR)
          else if len = 4 then
            (if 0x90 \<le> opcode \<and> opcode \<le> 0x9B then
               (mnem, [fmt_imm 2 (byte_at inst_bytes 1),
                       fmt_db (disp12 (byte_at inst_bytes 2) (byte_at inst_bytes 3))
                              (hi_nibble (byte_at inst_bytes 2))], SI)
             else if opcode \<in> set [0x88, 0x89, 0x8A, 0x8B, 0x8C, 0x8D, 0x8E, 0x8F] then
               (mnem, [str_nat (hi_nibble (byte_at inst_bytes 1)),
                       str_nat (lo_nibble (byte_at inst_bytes 1)),
                       fmt_db (disp12 (byte_at inst_bytes 2) (byte_at inst_bytes 3))
                              (hi_nibble (byte_at inst_bytes 2))], RS)
             else if lo_nibble (byte_at inst_bytes 1) \<noteq> 0 then
               (mnem, [str_nat (hi_nibble (byte_at inst_bytes 1)),
                       fmt_dxb (disp12 (byte_at inst_bytes 2) (byte_at inst_bytes 3))
                               (lo_nibble (byte_at inst_bytes 1))
                               (hi_nibble (byte_at inst_bytes 2))], RX)
             else
               (mnem, [str_nat (hi_nibble (byte_at inst_bytes 1)),
                       fmt_db (disp12 (byte_at inst_bytes 2) (byte_at inst_bytes 3))
                              (hi_nibble (byte_at inst_bytes 2))], RX))
          else if len = 6 then
            (if 0xD0 \<le> opcode \<and> opcode \<le> 0xDF then
               (mnem, [fmt_dxb (disp12 (byte_at inst_bytes 2) (byte_at inst_bytes 3))
                               (byte_at inst_bytes 1)
                               (hi_nibble (byte_at inst_bytes 2)),
                       fmt_db (disp12 (byte_at inst_bytes 4) (byte_at inst_bytes 5))
                              (hi_nibble (byte_at inst_bytes 4))], SS)
             else if opcode \<in> set [0xC0, 0xC2, 0xC4, 0xC6, 0xC8] then
               (mnem, [str_nat (hi_nibble (byte_at inst_bytes 1)),
                       fmt_imm 8 (be_unsigned (py_slice inst_bytes 2 6))], RIL)
             else (mnem, [], FMT_UNKNOWN))
          else (mnem, [], FMT_UNKNOWN)))"

text \<open>\<^verbatim>\<open>_calculate_branch_target\<close>.\<close>

definition calculate_branch_target :: "bytes \<Rightarrow> int \<Rightarrow> InstructionFormat \<Rightarrow> int option" where
  "calculate_branch_target inst_bytes addr fmt =
     (if fmt = RX \<and> length inst_bytes \<ge> 4 then
        (if hi_nibble (byte_at inst_bytes 2) = 0
         then Some (int (disp12 (byte_at inst_bytes 2) (byte_at inst_bytes 3)))
         else None)
      else if fmt = RIL \<and> length inst_bytes \<ge> 6 then
        Some (addr + be_signed32 (py_slice inst_bytes 2 6) * 2)
      else None)"

text \<open>The three flags computed in \<^verbatim>\<open>decode_instruction\<close> (lines 101-104). In
  \<^verbatim>\<open>operands and operands[0] == "15"\<close> an empty operand list is falsy.\<close>

definition branch_flag :: "string \<Rightarrow> bool" where
  "branch_flag mnem = (mnem \<in> set [''BC'', ''BCR'', ''BAL'', ''BALR'', ''BASR'', ''BAS'',
                                      ''BXH'', ''BXLE'', ''BCT'', ''BCTR''])"

definition call_flag :: "string \<Rightarrow> bool" where
  "call_flag mnem = (mnem \<in> set [''BALR'', ''BASR'', ''BAL'', ''BAS''])"

definition return_flag :: "string \<Rightarrow> string list \<Rightarrow> bool" where
  "return_flag mnem ops =
     ((mnem = ''BCR'' \<and> ops \<noteq> [] \<and> ops ! 0 = ''15'') \<or>
      (mnem = ''BR'' \<and> ops \<noteq> [] \<and> ops ! 0 = ''14''))"

text \<open>\<^verbatim>\<open>decode_instruction(data, offset, address)\<close>, for the non-negative offsets the
  disassembler passes. \<^verbatim>\<open>None\<close> is \<open>Inr None\<close>.\<close>

definition decode_instruction :: "bytes \<Rightarrow> nat \<Rightarrow> int \<Rightarrow> py_error + Instruction option" where
  "decode_instruction data offset addr =
     (if offset \<ge> length data then Inr None
      else
        let opcode = byte_at data offset;
            len = get_instruction_length opcode
        in if offset + len > length data then Inr None
           else
             let inst_bytes = py_slice data offset (offset + len) in
             (case decode_instruction_details inst_bytes of
                Inl e \<Rightarrow> Inl e
              | Inr (mnem, ops, fmt) \<Rightarrow>
                  Inr (Some \<lparr>
                       address = addr,
                       raw_bytes = inst_bytes,
                       hex_bytes = hex_upper inst_bytes,
                       mnemonic = mnem,
                       operands = ops,
                       format = fmt,
                       synthetic_label = None,
                       is_branch = branch_flag mnem,
                       is_call = call_flag mnem,
                       is_return = return_flag mnem ops,
                       branch_target = (if branch_flag mnem \<and> len \<ge> 4
                                        then calculate_branch_target inst_bytes addr fmt
                                        else None),
                       annotation = None,
                       confidence = (if mnem \<noteq> ''UNKNOWN'' then HIGH else LOW) \<rparr>)))"

section \<open>Remaining records of ir.py\<close>

text \<open>\<^verbatim>\<open>BasicBlock\<close>. The field \<^verbatim>\<open>id\<close> is named \<open>block_id\<close> here, \<^verbatim>\<open>module_name\<close> is \<open>cfg_module_name\<close>, and the fields
  that share a name with a field of another record carry a prefix.\<close>

record BasicBlock =
  block_id :: string
  start_address :: int
  end_address :: int
  instructions :: "Instruction list"
  block_type :: BlockType
  predecessors :: "string set"
  successors :: "string set"
  fall_through :: "string option"
  branch_targets :: "string list"
  block_confidence :: Confidence

record Procedure =
  proc_id :: string
  proc_name :: string
  entry_address :: int
  exit_addresses :: "int list"
  proc_basic_blocks :: "string list"
  calls_to :: "string set"
  called_by :: "string set"
  detection_method :: string

text \<open>Dictionaries whose iteration order the code relies on are association lists in
  insertion order.\<close>

record ControlFlowGraph =
  cfg_module_name :: "string option"
  entry_points :: "int list"
  basic_blocks :: "(string \<times> BasicBlock) list"
  procedures :: "(string \<times> Procedure) list"
  call_graph :: "(string \<times> string set) list"
  unresolved_branches :: "int list"
  data_regions :: "(int \<times> int) list"

record section_info =
  sec_offset :: nat
  sec_size :: nat
  sec_type :: string

record ModuleMetadata =
  name :: "string option"
  format_type :: string
  entry_point :: "int option"
  external_symbols :: "string list"
  csect_info :: "section_info list"
  amode :: "int option"
  rmode :: "string option"
  attributes :: "(string \<times> string) list"

text \<open>\<^verbatim>\<open>ModuleMetadata()\<close> with every default.\<close>

definition default_metadata :: ModuleMetadata where
  "default_metadata = \<lparr> name = None, format_type = ''unknown'', entry_point = None,
     external_symbols = [], csect_info = [], amode = None, rmode = None, attributes = [] \<rparr>"

text \<open>The statistics dictionary of \<^verbatim>\<open>_generate_statistics\<close>. Python's true division
  of two integers is the correctly rounded quotient; the model keeps the exact quotient
  as a rational. Rounding is monotone and 0, 1 and 2 are floating-point numbers, so
  every comparison of a rate with one of them below is the comparison Python makes.\<close>

record statistics =
  instruction_count :: nat
  decoded_bytes :: nat
  unknown_bytes :: int
  decode_rate :: rat
  branch_count :: nat
  call_count :: nat
  return_count :: nat
  top_mnemonics :: "(string \<times> nat) list"

type_synonym unknown_region = "int \<times> int \<times> bytes"

record DisassemblyResult =
  metadata :: ModuleMetadata
  dr_instructions :: "Instruction list"
  cfg :: ControlFlowGraph
  unknown_regions :: "unknown_region list"
  warnings :: "string list"
  dr_statistics :: statistics

section \<open>Disassembler (disassembler.py)\<close>

text \<open>The local variables of the loop in \<^verbatim>\<open>disassemble\<close> together with the two lists
  it appends to.\<close>

record sweep_state =
  offset :: nat
  current_address :: int
  unknown_start :: "int option"
  unknown_acc :: bytes
  insts_acc :: "Instruction list"
  regions_acc :: "unknown_region list"

text \<open>\<^verbatim>\<open>if unknown_start is not None: self.unknown_regions.append(...)\<close>, written twice
  in the source (inside the loop and after it).\<close>

definition flush_unknown :: "sweep_state \<Rightarrow> unknown_region list" where
  "flush_unknown s =
     (case unknown_start s of
        Some u \<Rightarrow> regions_acc s @ [(u, current_address s - 1, unknown_acc s)]
      | None \<Rightarrow> regions_acc s)"

text \<open>The \<^verbatim>\<open>while offset < len(data)\<close> loop. An \<^verbatim>\<open>Instruction\<close> object is always
  truthy, so \<^verbatim>\<open>if inst:\<close> tests for \<^verbatim>\<open>None\<close>.\<close>

function sweep :: "bytes \<Rightarrow> sweep_state \<Rightarrow> py_error + sweep_state" where
  "sweep data s =
     (if offset s < length data then
        (case decode_instruction data (offset s) (current_address s) of
           Inl e \<Rightarrow> Inl e
         | Inr (Some inst) \<Rightarrow>
             sweep data \<lparr> offset = offset s + length (raw_bytes inst),
                          current_address = current_address s + int (length (raw_bytes inst)),
                          unknown_start = None,
                          unknown_acc = [],
                          insts_acc = insts_acc s @ [inst],
                          regions_acc = flush_unknown s \<rparr>
         | Inr None \<Rightarrow>
             sweep data \<lparr> offset = offset s + 1,
                          current_address = current_address s + 1,
                          unknown_start = (if unknown_start s = None
                                           then Some (current_address s)
                                           else unknown_start s),
                          unknown_acc = unknown_acc s @ py_slice data (offset s) (offset s + 1),
                          insts_acc = insts_acc s,
                          regions_acc = regions_acc s \<rparr>)
      else Inr s)"
  by pat_completeness auto
termination
proof (relation "measure (\<lambda>(data, s). length data - offset s)")
  show "wf (measure (\<lambda>(data, s). length data - offset s))" by simp
next
  fix data :: bytes and s :: sweep_state and r inst
  assume lt: "offset s < length data"
    and d: "decode_instruction data (offset s) (current_address s) = Inr r"
    and r: "r = Some inst"
  let ?len = "get_instruction_length (byte_at data (offset s))"
  have fits: "offset s + ?len \<le> length data"
    and raw: "raw_bytes inst = py_slice data (offset s) (offset s + ?len)"
    using d r unfolding decode_instruction_def Let_def
    by (auto split: if_splits sum.splits prod.splits)
  have tab: "\<forall>p \<in> set OPCODE_LENGTHS. 0 < snd p"
    by (simp add: OPCODE_LENGTHS_def)
  have "0 < ?len"
  proof (cases "map_of OPCODE_LENGTHS (byte_at data (offset s))")
    case None
    then show ?thesis by (simp add: get_instruction_length_def)
  next
    case (Some n)
    then have "(byte_at data (offset s), n) \<in> set OPCODE_LENGTHS"
      by (rule map_of_SomeD)
    with tab have "0 < n" by force
    with Some show ?thesis by (simp add: get_instruction_length_def)
  qed
  with fits raw have "offset s < offset s + length (raw_bytes inst)"
    by (simp add: py_slice_def)
  with lt show "((data, \<lparr> offset = offset s + length (raw_bytes inst),
                          current_address = current_address s + int (length (raw_bytes inst)),
                          unknown_start = None,
                          unknown_acc = [],
                          insts_acc = insts_acc s @ [inst],
                          regions_acc = flush_unknown s \<rparr>), (data, s))
        \<in> measure (\<lambda>(data, s). length data - offset s)"
    by (simp del: length_greater_0_conv)
next
  fix data :: bytes and s :: sweep_state and r
  assume "offset s < length data"
  then show "((data, \<lparr> offset = offset s + 1,
                          current_address = current_address s + 1,
                          unknown_start = (if unknown_start s = None
                                           then Some (current_address s)
                                           else unknown_start s),
                          unknown_acc = unknown_acc s @ py_slice data (offset s) (offset s + 1),
                          insts_acc = insts_acc s,
                          regions_acc = regions_acc s \<rparr>), (data, s))
        \<in> measure (\<lambda>(data, s). length data - offset s)"
    by simp
qed

declare sweep.simps [simp del]

text \<open>\<^verbatim>\<open>mnemonic_counts[m] = mnemonic_counts.get(m, 0) + 1\<close> on an insertion-ordered
  dictionary.\<close>

fun count_mnemonic :: "string \<Rightarrow> (string \<times> nat) list \<Rightarrow> (string \<times> nat) list" where
  "count_mnemonic m [] = [(m, 1)]"
| "count_mnemonic m ((k, c) # rest) =
     (if k = m then (k, c + 1) # rest else (k, c) # count_mnemonic m rest)"

definition mnemonic_counts :: "Instruction list \<Rightarrow> (string \<times> nat) list" where
  "mnemonic_counts insts = foldl (\<lambda>acc i. count_mnemonic (mnemonic i) acc) [] insts"

definition region_size :: "unknown_region \<Rightarrow> int" where
  "region_size r = (case r of (start, end, _) \<Rightarrow> end - start + 1)"

text \<open>\<^verbatim>\<open>_generate_statistics\<close>. \<^verbatim>\<open>sorted(..., key=count, reverse=True)\<close> is stable, as
  \<^term>\<open>sort_key\<close> is.\<close>

definition generate_statistics :: "Instruction list \<Rightarrow> unknown_region list \<Rightarrow> statistics" where
  "generate_statistics insts regions =
     (let total_bytes = sum_list (map (\<lambda>i. length (raw_bytes i)) insts);
          unknown = sum_list (map region_size regions)
      in \<lparr> instruction_count = length insts,
           decoded_bytes = total_bytes,
           unknown_bytes = unknown,
           decode_rate = (if int total_bytes + unknown > 0
                          then of_nat total_bytes / of_int (int total_bytes + unknown)
                          else 0),
           branch_count = length (filter is_branch insts),
           call_count = length (filter is_call insts),
           return_count = length (filter is_return insts),
           top_mnemonics = take 10 (sort_key (\<lambda>p. - int (snd p)) (mnemonic_counts insts)) \<rparr>)"

text \<open>Truthiness of an optional integer: \<^verbatim>\<open>None\<close> and \<^verbatim>\<open>0\<close> are falsy.\<close>

definition truthy :: "int option \<Rightarrow> bool" where
  "truthy v = (case v of None \<Rightarrow> False | Some n \<Rightarrow> n \<noteq> 0)"

definition initial_sweep_state :: "int \<Rightarrow> sweep_state" where
  "initial_sweep_state base_address =
     \<lparr> offset = 0, current_address = base_address, unknown_start = None,
       unknown_acc = [], insts_acc = [], regions_acc = [] \<rparr>"

text \<open>\<^verbatim>\<open>Disassembler.disassemble\<close> with the default \<^verbatim>\<open>NativeDecoder\<close>.\<close>

definition disassemble ::
  "bytes \<Rightarrow> int \<Rightarrow> ModuleMetadata option \<Rightarrow> py_error + DisassemblyResult" where
  "disassemble data base_address md =
     (case sweep data (initial_sweep_state base_address) of
        Inl e \<Rightarrow> Inl e
      | Inr s \<Rightarrow>
          let regions = flush_unknown s;
              g = \<lparr> cfg_module_name = (case md of Some m \<Rightarrow> name m | None \<Rightarrow> Some ''unknown''),
                    entry_points = (case md of
                                      Some m \<Rightarrow> (if truthy (entry_point m)
                                                 then [the (entry_point m)] else [base_address])
                                    | None \<Rightarrow> [base_address]),
                    basic_blocks = [], procedures = [], call_graph = [],
                    unresolved_branches = [], data_regions = [] \<rparr>
          in Inr \<lparr> metadata = (case md of Some m \<Rightarrow> m | None \<Rightarrow> default_metadata),
                   dr_instructions = insts_acc s,
                   cfg = g,
                   unknown_regions = regions,
                   warnings = [],
                   dr_statistics = generate_statistics (insts_acc s) regions \<rparr>)"

section \<open>CFGBuilder (cfg_builder.py)\<close>

text \<open>\<^verbatim>\<open>_is_unconditional_branch\<close>.\<close>

definition is_unconditional_branch :: "Instruction \<Rightarrow> bool" where
  "is_unconditional_branch inst =
     ((mnemonic inst = ''BC'' \<and> operands inst \<noteq> [] \<and> operands inst ! 0 = ''15'') \<or>
      (mnemonic inst = ''BCR'' \<and> operands inst \<noteq> [] \<and> operands inst ! 0 = ''15'') \<or>
      mnemonic inst = ''B'' \<or>
      mnemonic inst = ''BR'')"

text \<open>\<^verbatim>\<open>{inst.address: inst for inst in instructions}\<close>: a later instruction with the
  same address replaces an earlier one.\<close>

definition instruction_map :: "Instruction list \<Rightarrow> int \<rightharpoonup> Instruction" where
  "instruction_map insts = map_of (rev (map (\<lambda>i. (address i, i)) insts))"

text \<open>\<^verbatim>\<open>_find_leaders\<close>. The set \<^verbatim>\<open>self.leaders\<close> is a duplicate-free list; the
  loop over \<^verbatim>\<open>enumerate(self.instructions)\<close> is a recursion over the remaining
  instructions, whose head is \<^verbatim>\<open>self.instructions[i + 1]\<close>.\<close>

fun leaders_loop :: "(int \<rightharpoonup> Instruction) \<Rightarrow> Instruction list \<Rightarrow> int list \<Rightarrow> int list" where
  "leaders_loop m [] leaders = leaders"
| "leaders_loop m (inst # rest) leaders =
     leaders_loop m rest
       (if is_branch inst then
          (let with_target =
                 (if truthy (branch_target inst) \<and> m (the (branch_target inst)) \<noteq> None
                  then List.insert (the (branch_target inst)) leaders else leaders)
           in if \<not> is_unconditional_branch inst \<and> rest \<noteq> []
              then List.insert (address (hd rest)) with_target else with_target)
        else if is_call inst then
          (if rest \<noteq> [] then List.insert (address (hd rest)) leaders else leaders)
        else if is_return inst then
          (if rest \<noteq> [] then List.insert (address (hd rest)) leaders else leaders)
        else leaders)"

definition find_leaders :: "Instruction list \<Rightarrow> int list \<Rightarrow> int list" where
  "find_leaders insts eps =
     (let m = instruction_map insts;
          from_entries = foldl (\<lambda>leaders ep. if m ep \<noteq> None then List.insert ep leaders
                                               else leaders) [] eps;
          with_first = (if from_entries = [] \<and> insts \<noteq> []
                        then List.insert (address (hd insts)) from_entries
                        else from_entries)
      in leaders_loop m insts with_first)"

text \<open>\<^verbatim>\<open>_determine_block_type\<close>.\<close>

definition determine_block_type :: "Instruction list \<Rightarrow> BlockType" where
  "determine_block_type insts =
     (if insts = [] then BT_UNKNOWN
      else if synthetic_label (hd insts) = Some ''ENTRY'' then ENTRY
      else if list_ex is_call insts then CALL
      else if is_return (last insts) then RETURN
      else if is_branch (last insts) then BRANCH
      else NORMAL)"

text \<open>The \<^verbatim>\<open>BasicBlock(...)\<close> built in \<^verbatim>\<open>_create_basic_blocks\<close>;
  \<^verbatim>\<open>f"block_{leader:08X}"\<close> is its id.\<close>

definition make_block :: "int \<Rightarrow> Instruction list \<Rightarrow> BasicBlock" where
  "make_block leader block_instructions =
     \<lparr> block_id = ''block_'' @ fmt_X 8 leader,
       start_address = leader,
       end_address = (if block_instructions \<noteq> [] then address (last block_instructions)
                      else leader),
       instructions = block_instructions,
       block_type = determine_block_type block_instructions,
       predecessors = {},
       successors = {},
       fall_through = None,
       branch_targets = [],
       block_confidence = HIGH \<rparr>"

text \<open>\<^verbatim>\<open>self.blocks.append(block)\<close>. The attribute \<^verbatim>\<open>self.blocks\<close> is the
  dictionary \<^verbatim>\<open>{}\<close> that \<^verbatim>\<open>__init__\<close> creates, and a dictionary has no
  attribute \<^verbatim>\<open>append\<close>: the call raises \<^verbatim>\<open>AttributeError\<close>.\<close>

definition dict_append ::
  "(string \<times> BasicBlock) list \<Rightarrow> BasicBlock \<Rightarrow> py_error + (string \<times> BasicBlock) list" where
  "dict_append blocks block = Inl AttributeError"

text \<open>The loop of \<^verbatim>\<open>_create_basic_blocks\<close> over the sorted leaders; the head of
  the remaining leaders is \<^verbatim>\<open>sorted_leaders[i + 1]\<close>.\<close>

fun create_blocks_loop ::
  "Instruction list \<Rightarrow> int list \<Rightarrow> (string \<times> BasicBlock) list \<Rightarrow>
   py_error + (string \<times> BasicBlock) list" where
  "create_blocks_loop insts [] blocks = Inr blocks"
| "create_blocks_loop insts (leader # later) blocks =
     (let end_addr =
            (if later \<noteq> [] then hd later - 1
             else if insts \<noteq> []
                  then address (last insts) + int (length (raw_bytes (last insts))) - 1
                  else leader);
          block_instructions =
            filter (\<lambda>inst. leader \<le> address inst \<and> address inst \<le> end_addr) insts
      in if block_instructions = [] then create_blocks_loop insts later blocks
         else (case dict_append blocks (make_block leader block_instructions) of
                 Inl e \<Rightarrow> Inl e
               | Inr blocks' \<Rightarrow> create_blocks_loop insts later blocks'))"

definition create_basic_blocks ::
  "Instruction list \<Rightarrow> int list \<Rightarrow> py_error + (string \<times> BasicBlock) list" where
  "create_basic_blocks insts leaders = create_blocks_loop insts (sort leaders) []"

text \<open>\<^verbatim>\<open>_add_control_flow_edges\<close>. Iterating \<^verbatim>\<open>enumerate(self.blocks)\<close> over a
  dictionary yields pairs of an index and a key, so \<^verbatim>\<open>block\<close> is a string and the
  first statement of the loop body, \<^verbatim>\<open>block.instructions\<close>, raises
  \<^verbatim>\<open>AttributeError\<close>. On the empty dictionary the loop body does not run and the
  function returns the empty list of unresolved branches.\<close>

definition add_control_flow_edges :: "(string \<times> BasicBlock) list \<Rightarrow> py_error + int list" where
  "add_control_flow_edges blocks = (if blocks = [] then Inr [] else Inl AttributeError)"

text \<open>\<^verbatim>\<open>build_cfg\<close> on a fresh \<^verbatim>\<open>CFGBuilder\<close>. The name \<^verbatim>\<open>cfg\<close> is assigned
  further down in the function (line 42), which makes it a local variable; reading it in
  \<^verbatim>\<open>cfg.unresolved_branches.extend(unresolved)\<close> (line 36) before that assignment
  raises \<^verbatim>\<open>UnboundLocalError\<close>. No statement after line 36 is ever reached.\<close>

definition build_cfg :: "DisassemblyResult \<Rightarrow> py_error + ControlFlowGraph" where
  "build_cfg disasm_result =
     (let insts = dr_instructions disasm_result;
          leaders = find_leaders insts (entry_points (cfg disasm_result))
      in case create_basic_blocks insts leaders of
           Inl e \<Rightarrow> Inl e
         | Inr blocks \<Rightarrow>
             (case add_control_flow_edges blocks of
                Inl e \<Rightarrow> Inl e
              | Inr unresolved \<Rightarrow> Inl UnboundLocalError))"

text \<open>The test \<^verbatim>\<open>_detect_prologues\<close> applies to the first instruction of a block
  (lines 349-350).\<close>

definition prologue_pattern :: "Instruction \<Rightarrow> bool" where
  "prologue_pattern first_inst =
     (mnemonic first_inst = ''STM'' \<and> operands first_inst \<noteq> [] \<and>
      length (operands first_inst) \<ge> 2 \<and> operands first_inst ! 0 = ''14'')"

section \<open>BinaryIngestor (ingestion.py)\<close>

record BinaryIngestor =
  file_data :: bytes
  ing_metadata :: ModuleMetadata
  code_start :: nat
  code_end :: nat

text \<open>\<^verbatim>\<open>BinaryIngestor()\<close>.\<close>

definition new_ingestor :: BinaryIngestor where
  "new_ingestor = \<lparr> file_data = [], ing_metadata = default_metadata,
                     code_start = 0, code_end = 0 \<rparr>"

text \<open>\<^verbatim>\<open>_ebcdic_to_ascii\<close>.\<close>

definition ebcdic_char :: "byte \<Rightarrow> char" where
  "ebcdic_char c =
     (let b = unat c in
      if b = 0x40 then CHR '' ''
      else if 0xC1 \<le> b \<and> b \<le> 0xC9 then char_of (of_char (CHR ''A'') + b - 0xC1)
      else if 0xD1 \<le> b \<and> b \<le> 0xD9 then char_of (of_char (CHR ''J'') + b - 0xD1)
      else if 0xE2 \<le> b \<and> b \<le> 0xE9 then char_of (of_char (CHR ''S'') + b - 0xE2)
      else if 0xF0 \<le> b \<and> b \<le> 0xF9 then char_of (of_char (CHR ''0'') + b - 0xF0)
      else CHR ''.'')"

definition ebcdic_to_ascii :: "bytes \<Rightarrow> string" where
  "ebcdic_to_ascii bs = map ebcdic_char bs"

text \<open>\<^verbatim>\<open>str.strip()\<close> on the output of \<^verbatim>\<open>_ebcdic_to_ascii\<close>, whose only
  whitespace is the space.\<close>

definition strip :: "string \<Rightarrow> string" where
  "strip s = rev (dropWhile (\<lambda>c. c = CHR '' '') (rev (dropWhile (\<lambda>c. c = CHR '' '') s)))"

text \<open>\<^verbatim>\<open>_looks_like_load_module\<close>.\<close>

definition looks_like_load_module :: "BinaryIngestor \<Rightarrow> bool" where
  "looks_like_load_module ing =
     (if length (file_data ing) < 2 then False
      else py_slice (file_data ing) 0 2 \<in>
             set [[0x47, 0xF0], [0x90, 0xEC], [0x18, 0x0F], [0x05, 0xC0]])"

text \<open>\<^verbatim>\<open>_has_pds_header\<close>.\<close>

definition has_pds_header :: "BinaryIngestor \<Rightarrow> bool" where
  "has_pds_header ing =
     (if length (file_data ing) < 20 then False
      else list_all (\<lambda>c. \<not> (unat c \<noteq> 0x40 \<and> \<not> (0xC1 \<le> unat c \<and> unat c \<le> 0xE9)))
             (py_slice (file_data ing) 0 8))"

text \<open>\<^verbatim>\<open>_parse_load_module\<close>, with \<^verbatim>\<open>_extract_pds_info\<close> and
  \<^verbatim>\<open>_extract_attributes\<close> inlined.\<close>

definition parse_load_module :: "BinaryIngestor \<Rightarrow> BinaryIngestor" where
  "parse_load_module ing =
     (let pds = has_pds_header ing;
          off = (if pds then 20 else 0);
          md0 = ing_metadata ing;
          md1 = (if pds
                 then md0\<lparr> attributes :=
                        AList.update ''pds_member''
                          (ebcdic_to_ascii (py_slice (py_slice (file_data ing) 0 off) 0 8))
                          (attributes md0) \<rparr>
                 else md0);
          md2 = (if off < length (file_data ing)
                 then md1\<lparr> entry_point := Some (int off) \<rparr> else md1)
      in ing\<lparr> code_start := off,
               code_end := length (file_data ing),
               ing_metadata := md2\<lparr> amode := Some 31, rmode := Some ''ANY'' \<rparr> \<rparr>)"

text \<open>The two loops of \<^verbatim>\<open>_extract_sections\<close>; the first argument counts the
  iterations of \<^verbatim>\<open>range(...)\<close> still to run, and \<^verbatim>\<open>break\<close> ends the recursion.
  The first loop also returns the offset it stopped at.\<close>

fun externals_loop :: "nat \<Rightarrow> bytes \<Rightarrow> nat \<Rightarrow> string list \<Rightarrow> nat \<times> string list" where
  "externals_loop 0 d off acc = (off, acc)"
| "externals_loop (Suc n) d off acc =
     (if off + 16 > length d then (off, acc)
      else externals_loop n d (off + 16)
             (acc @ [strip (ebcdic_to_ascii (py_slice d off (off + 8)))]))"

fun sections_loop :: "nat \<Rightarrow> bytes \<Rightarrow> nat \<Rightarrow> section_info list \<Rightarrow> section_info list" where
  "sections_loop 0 d off acc = acc"
| "sections_loop (Suc n) d off acc =
     (if off + 20 > length d then acc
      else sections_loop n d (off + 20)
             (acc @ [\<lparr> sec_offset = be_unsigned (py_slice d off (off + 4)),
                       sec_size = be_unsigned (py_slice d (off + 4) (off + 8)),
                       sec_type = ''text'' \<rparr>]))"

text \<open>\<^verbatim>\<open>_parse_program_object\<close> with \<^verbatim>\<open>_extract_sections\<close>. The header fields
  are read with \<^verbatim>\<open>struct.unpack\<close> from slices of the exact size, which the length
  test guarantees.\<close>

definition parse_program_object :: "BinaryIngestor \<Rightarrow> BinaryIngestor" where
  "parse_program_object ing =
     (let d = file_data ing in
      if length d < 32 then ing
      else
        let text_size = be_unsigned (py_slice d 8 12);
            entry_offset = be_unsigned (py_slice d 12 16);
            external_count = be_unsigned (py_slice d 16 18);
            section_count = be_unsigned (py_slice d 18 20);
            md0 = ing_metadata ing;
            ext = externals_loop external_count d 32 (external_symbols md0);
            secs = sections_loop section_count d (fst ext) (csect_info md0)
        in ing\<lparr> code_start := 32,
                 code_end := min (32 + text_size) (length d),
                 ing_metadata := md0\<lparr> entry_point := Some (int entry_offset),
                                       external_symbols := snd ext,
                                       csect_info := secs \<rparr> \<rparr>)"

text \<open>\<^verbatim>\<open>_apply_heuristics\<close>. \<^verbatim>\<open>range(0, min(256, len(data) - 2), 2)\<close> is the list of
  even numbers below the bound; each position read lies at least two bytes before the
  end, so \<^verbatim>\<open>opcode[0]\<close> exists.\<close>

definition apply_heuristics :: "BinaryIngestor \<Rightarrow> BinaryIngestor" where
  "apply_heuristics ing =
     (let d = file_data ing;
          entry_candidates =
            filter (\<lambda>i. py_slice d i (i + 2) = [0x90, 0xEC] \<or>
                         unat (d ! i) \<in> set [0x05, 0x0D])
                   (filter even [0..<min 256 (length d - 2)])
      in ing\<lparr> code_start := 0,
               code_end := length d,
               ing_metadata := (ing_metadata ing)\<lparr> entry_point :=
                   (if entry_candidates \<noteq> [] then Some (int (hd entry_candidates))
                    else Some 0) \<rparr> \<rparr>)"

text \<open>\<^verbatim>\<open>_detect_format\<close>.\<close>

definition set_format :: "string \<Rightarrow> BinaryIngestor \<Rightarrow> BinaryIngestor" where
  "set_format f ing = ing\<lparr> ing_metadata := (ing_metadata ing)\<lparr> format_type := f \<rparr> \<rparr>"

definition detect_format :: "BinaryIngestor \<Rightarrow> BinaryIngestor" where
  "detect_format ing =
     (if length (file_data ing) \<ge> 4 \<and> py_slice (file_data ing) 0 2 = [0x00, 0x03]
      then parse_program_object (set_format ''program_object'' ing)
      else if looks_like_load_module ing
      then parse_load_module (set_format ''load_module'' ing)
      else apply_heuristics (set_format ''unknown'' ing))"

text \<open>\<^verbatim>\<open>load_file\<close>. The second argument is the outcome of opening and reading the
  file: its content, or the exception raised. The first argument is
  \<^verbatim>\<open>file_path.stem\<close>. The body is wrapped in \<^verbatim>\<open>try ... except Exception\<close>, so an
  exception becomes the return value \<^verbatim>\<open>False\<close>; the function has no \<^verbatim>\<open>raise\<close> of
  its own. None of the functions above can raise on a file of 8 bytes or more.\<close>

definition load_file ::
  "string \<Rightarrow> py_error + bytes \<Rightarrow> BinaryIngestor \<Rightarrow> py_error + bool \<times> BinaryIngestor" where
  "load_file stem file ing =
     (case file of
        Inl e \<Rightarrow> Inr (False, ing)
      | Inr content \<Rightarrow>
          (let ing1 = ing\<lparr> file_data := content \<rparr> in
           if length content < 8 then Inr (False, ing1)
           else Inr (True, detect_format
                  (ing1\<lparr> ing_metadata := (ing_metadata ing1)\<lparr> name := Some stem \<rparr> \<rparr>))))"

definition get_code_bytes :: "BinaryIngestor \<Rightarrow> bytes" where
  "get_code_bytes ing = py_slice (file_data ing) (code_start ing) (code_end ing)"

definition get_metadata :: "BinaryIngestor \<Rightarrow> ModuleMetadata" where
  "get_metadata ing = ing_metadata ing"

section \<open>RegionClassifier (classifier.py)\<close>

datatype RegionType = CODE | DATA | RT_UNKNOWN

text \<open>The evidence strings: \<^verbatim>\<open>f"decode_rate={decode_rate:.2f} > 0.7"\<close>, the same with
  \<^verbatim>\<open>< 0.3\<close>, \<^verbatim>\<open>"... in uncertain range"\<close>, and the constant-pool text. The
  formatted rate is kept as the rate itself. As in the statistics record, the rate is the
  exact quotient that Python's division rounds.\<close>

datatype region_evidence = Above rat | Below rat | Uncertain rat | ConstantPool

record Region =
  start_addr :: int
  end_addr :: int
  region_type :: RegionType
  region_confidence :: Confidence
  evidence :: region_evidence
  region_decode_rate :: rat






section \<open>Quantities used to state the properties\<close>

text \<open>The length table as the specification words it (section 4.2.1).\<close>

definition spec_length :: "nat \<Rightarrow> nat" where
  "spec_length b =
     (if b \<le> 0x1F then 2
      else if 0x40 \<le> b \<and> b \<le> 0x5F then 4
      else if 0x86 \<le> b \<and> b \<le> 0x9B then 4
      else if b \<in> set [0xA5, 0xA7, 0xB2, 0xB3, 0xB9] then 4
      else if b \<in> set [0xC0, 0xC2, 0xC4, 0xC6, 0xC8] then 6
      else if 0xD0 \<le> b \<and> b \<le> 0xDF then 6
      else if b \<in> set [0xE3, 0xEB, 0xEC, 0xED] then 6
      else if 0xF0 \<le> b \<and> b \<le> 0xFD then 6
      else 2)"

text \<open>The same table with the entries the dictionary \<open>OPCODE_LENGTHS\<close> leaves out
  (they fall to the default 2) and the entry \<open>0xE5\<close> it adds.\<close>

definition table_length :: "nat \<Rightarrow> nat" where
  "table_length b =
     (if b \<in> set [0x52, 0x53, 0x93, 0xD8, 0xF4, 0xF5, 0xF6, 0xF7] then 2
      else if b = 0xE5 then 4
      else spec_length b)"

text \<open>A run of consecutive keys with one value; \<open>OPCODE_LENGTHS\<close> is a
  concatenation of such runs.\<close>

definition run :: "nat \<Rightarrow> nat \<Rightarrow> nat \<Rightarrow> (nat \<times> nat) list" where
  "run lo hi v = map (\<lambda>k. (k, v)) [lo..<hi]"

text \<open>Bytes accounted for by a state of the sweep: decoded instructions, closed unknown
  regions, and the unknown run still open.\<close>

definition decoded_total :: "Instruction list \<Rightarrow> nat" where
  "decoded_total insts = sum_list (map (\<lambda>i. length (raw_bytes i)) insts)"

definition unknown_total :: "unknown_region list \<Rightarrow> int" where
  "unknown_total regions = sum_list (map region_size regions)"

definition pending :: "sweep_state \<Rightarrow> int" where
  "pending s = (case unknown_start s of Some u \<Rightarrow> current_address s - u | None \<Rightarrow> 0)"

definition covered :: "sweep_state \<Rightarrow> int" where
  "covered s = int (decoded_total (insts_acc s)) + unknown_total (regions_acc s) + pending s"

text \<open>The program of \<^verbatim>\<open>test_synthetic_binary\<close> (scenario 1 of the specification,
  28 bytes) and the program of \<^verbatim>\<open>test_cfg_builder\<close> (24 bytes).\<close>

definition simple_program :: bytes where
  "simple_program =
     [0x05, 0xEF, 0x90, 0xEC, 0xD0, 0x0C, 0x41, 0x10, 0x01, 0x00, 0x58, 0x20, 0x10, 0x00,
      0x5A, 0x20, 0x02, 0x00, 0x50, 0x20, 0x10, 0x00, 0x98, 0xEC, 0xD0, 0x0C, 0x07, 0xFE]"

definition branch_program :: bytes where
  "branch_program =
     [0x05, 0xEF, 0x55, 0x20, 0x30, 0x00, 0x47, 0x80, 0x00, 0x14, 0x41, 0x10, 0x01, 0x00,
      0x47, 0xF0, 0x00, 0x1C, 0x41, 0x10, 0x02, 0x00, 0x07, 0xFE]"

text \<open>An instruction list in address order whose instructions are non-empty and do not
  overlap, as the disassembler produces it; and the condition that no counted
  instruction starting inside \<open>[start, end]\<close> extends past \<open>end\<close>.\<close>

fun laid_out :: "Instruction list \<Rightarrow> bool" where
  "laid_out [] = True"
| "laid_out [i] = True"
| "laid_out (i # j # rest) =
     (raw_bytes i \<noteq> [] \<and> address i + int (length (raw_bytes i)) \<le> address j \<and>
      laid_out (j # rest))"







text \<open>The invariant of the sweep behind \<open>laid_out\<close>.\<close>

definition sweep_inv :: "sweep_state \<Rightarrow> bool" where
  "sweep_inv s =
     (laid_out (insts_acc s) \<and>
      (insts_acc s \<noteq> [] \<longrightarrow>
         raw_bytes (last (insts_acc s)) \<noteq> [] \<and>
         address (last (insts_acc s)) + int (length (raw_bytes (last (insts_acc s))))
           \<le> current_address s))"

section \<open>The decoder\<close>

lemma map_of_run_append:
  "map_of (run lo hi v @ rest) b = (if lo \<le> b \<and> b < hi then Some v else map_of rest b)"
  by (simp add: run_def map_of_map_restrict restrict_map_def map_add_def)

lemma OPCODE_LENGTHS_runs:
  "OPCODE_LENGTHS =
     [(0x00, 2), (0x01, 2)] @ run 0x02 0x20 2 @ run 0x40 0x52 4 @ run 0x54 0x60 4 @
     run 0x86 0x93 4 @ run 0x94 0x9C 4 @
     run 0xD0 0xD8 6 @ run 0xD9 0xE0 6 @ run 0xF0 0xF4 6 @ run 0xF8 0xFE 6 @
     run 0xA5 0xA6 4 @ run 0xA7 0xA8 4 @ run 0xB2 0xB4 4 @ run 0xB9 0xBA 4 @
     run 0xC0 0xC1 6 @ run 0xC2 0xC3 6 @ run 0xC4 0xC5 6 @ run 0xC6 0xC7 6 @ run 0xC8 0xC9 6 @
     run 0xE3 0xE4 6 @ run 0xE5 0xE6 4 @ run 0xEB 0xEE 6 @ []"
  by (simp add: OPCODE_LENGTHS_def run_def)

lemma get_instruction_length_small:
  "\<forall>b \<in> set [0..<256]. get_instruction_length b = table_length b"
  apply (simp only: get_instruction_length_def OPCODE_LENGTHS_runs map_of_run_append
      map_of_Cons_code append_Cons append_Nil)
  apply (simp add: table_length_def spec_length_def)
  done

lemma get_instruction_length_large:
  "256 \<le> b \<Longrightarrow> get_instruction_length b = table_length b"
  apply (simp only: get_instruction_length_def OPCODE_LENGTHS_runs map_of_run_append
      map_of_Cons_code append_Cons append_Nil)
  apply (simp add: table_length_def spec_length_def)
  done

lemma get_instruction_length_table: "get_instruction_length b = table_length b"
proof (cases "b < 256")
  case True
  then have "b \<in> set [0..<256]" by simp
  then show ?thesis using get_instruction_length_small by blast
next
  case False
  then show ?thesis by (simp add: get_instruction_length_large)
qed

lemma get_instruction_length_cases: "get_instruction_length b \<in> {2, 4, 6}"
  unfolding get_instruction_length_table table_length_def spec_length_def by simp

lemma length_slice: "b \<le> length xs \<Longrightarrow> length (py_slice xs a b) = b - a"
  by (simp add: py_slice_def)

lemma decode_instruction_details_Inr:
  "bs \<noteq> [] \<Longrightarrow> \<exists>m ops fmt. decode_instruction_details bs = Inr (m, ops, fmt)"
  unfolding decode_instruction_details_def Let_def by simp

lemma decode_instruction_details_RX:
  "decode_instruction_details bs = Inr (m, ops, RX) \<Longrightarrow> length bs = 4"
  unfolding decode_instruction_details_def Let_def
  by (cases "length bs = 4") (simp_all split: if_splits)

lemma decode_instruction_SomeD:
  assumes "decode_instruction data off addr = Inr (Some i)"
  shows "off < length data"
    and "off + get_instruction_length (byte_at data off) \<le> length data"
    and "raw_bytes i = py_slice data off (off + get_instruction_length (byte_at data off))"
    and "decode_instruction_details (raw_bytes i) = Inr (mnemonic i, operands i, format i)"
    and "address i = addr"
    and "is_branch i = branch_flag (mnemonic i)"
    and "is_call i = call_flag (mnemonic i)"
    and "is_return i = return_flag (mnemonic i) (operands i)"
    and "branch_target i =
           (if is_branch i \<and> get_instruction_length (byte_at data off) \<ge> 4
            then calculate_branch_target (raw_bytes i) addr (format i) else None)"
  using assms unfolding decode_instruction_def Let_def
  by (auto split: if_splits sum.splits prod.splits)

lemma decode_instruction_length:
  assumes "decode_instruction data off addr = Inr (Some i)"
  shows "length (raw_bytes i) = get_instruction_length (byte_at data off)"
  using decode_instruction_SomeD(2,3) [OF assms] by (simp add: length_slice)

text \<open>The decoder never raises: the slice it hands to
  \<^verbatim>\<open>_decode_instruction_details\<close> holds at least two bytes.\<close>

lemma decode_instruction_no_error: "decode_instruction data off addr \<noteq> Inl e"
proof (cases "off < length data \<and> off + get_instruction_length (byte_at data off) \<le> length data")
  case False
  then show ?thesis
    by (auto simp: decode_instruction_def Let_def)
next
  case True
  let ?len = "get_instruction_length (byte_at data off)"
  have "?len \<in> {2, 4, 6}" by (rule get_instruction_length_cases)
  with True have "length (py_slice data off (off + ?len)) \<noteq> 0"
    by (auto simp: length_slice)
  then have "py_slice data off (off + ?len) \<noteq> []" by simp
  from decode_instruction_details_Inr [OF this] True show ?thesis
    by (auto simp: decode_instruction_def Let_def)
qed

text \<open>
  Claim C2, as the code has it. For every first opcode byte \<open>b\<close> (indeed for every
  integer), \<^verbatim>\<open>get_instruction_length(b)\<close> is the specification's table except at
  nine bytes: \<open>0x52\<close>, \<open>0x53\<close>, \<open>0x93\<close>, \<open>0xD8\<close> and \<open>0xF4\<close>-\<open>0xF7\<close> are not keys of
  \<open>OPCODE_LENGTHS\<close> and get the default length 2, and \<open>0xE5\<close> is a key with length 4.
\<close>

theorem get_instruction_length_amended:
  "get_instruction_length b =
     (if b \<in> set [0x52, 0x53, 0x93, 0xD8, 0xF4, 0xF5, 0xF6, 0xF7] then 2
      else if b = 0xE5 then 4
      else spec_length b)"
  using get_instruction_length_table [of b] by (simp only: table_length_def)

theorem get_instruction_length_amended_witness:
  "get_instruction_length 0x47 = 4 \<and> get_instruction_length 0x52 = 2 \<and>
   get_instruction_length 0xE5 = 4 \<and> get_instruction_length 0xFF = 2"
  using get_instruction_length_amended [of "0x47"] get_instruction_length_amended [of "0x52"]
    get_instruction_length_amended [of "0xE5"] get_instruction_length_amended [of "0xFF"]
  by (simp add: spec_length_def)

text \<open>
  Claim C2, as the specification states it, fails at the byte \<open>0x52\<close>: the table gives
  4 for the whole range \<open>0x40\<close>-\<open>0x5F\<close>, the code returns 2.
\<close>

theorem get_instruction_length_counterexample:
  "get_instruction_length 0x52 = 2 \<and> spec_length 0x52 = 4"
  by code_simp

text \<open>
  Claim C4 at the input \<open>07 F0\<close>. The decoder names it \<open>BCR\<close> with operands 15 and 0
  and sets \<open>is_return\<close>: the test of \<^verbatim>\<open>decode_instruction\<close> reads the mask operand
  only, so \<open>BCR 15,r\<close> is a return for every register \<open>r\<close>, not for 14 alone.
\<close>

theorem is_return_BCR_15_0:
  "(case decode_instruction [0x07, 0xF0] 0 0 of
      Inr (Some i) \<Rightarrow> mnemonic i = ''BCR'' \<and> operands i = [''15'', ''0''] \<and> is_return i
    | _ \<Rightarrow> False) \<and>
   (\<forall>r. return_flag ''BCR'' [''15'', r])"
proof
  show "case decode_instruction [0x07, 0xF0] 0 0 of
      Inr (Some i) \<Rightarrow> mnemonic i = ''BCR'' \<and> operands i = [''15'', ''0''] \<and> is_return i
    | _ \<Rightarrow> False"
    by code_simp
  show "\<forall>r. return_flag ''BCR'' [''15'', r]"
    by (simp add: return_flag_def)
qed

lemma RX_branch_target:
  assumes d: "decode_instruction data off addr = Inr (Some i)"
    and b: "is_branch i" and f: "format i = RX"
  shows "branch_target i =
           (if hi_nibble (byte_at (raw_bytes i) 2) = 0
            then Some (int (disp12 (byte_at (raw_bytes i) 2) (byte_at (raw_bytes i) 3)))
            else None)"
proof -
  have l4: "length (raw_bytes i) = 4"
    using decode_instruction_SomeD(4) [OF d] f
    by (auto dest: decode_instruction_details_RX)
  then have "get_instruction_length (byte_at data off) = 4"
    using decode_instruction_length [OF d] by simp
  then have "branch_target i = calculate_branch_target (raw_bytes i) addr RX"
    using decode_instruction_SomeD(9) [OF d] b f by simp
  then show ?thesis
    using l4 by (simp add: calculate_branch_target_def)
qed

text \<open>
  Claim C6, as the code has it. For every decoded RX-format branch the target is the
  displacement \<open>d2 = ((b[2] & 0xF) << 8) | b[3]\<close> when the base register
  \<open>B2 = (b[2] >> 4) & 0xF\<close> is 0, and \<open>None\<close> otherwise. The bytes \<open>47 F0 10 00\<close>
  encode \<open>B2 = 1\<close> and \<open>d2 = 0\<close>: they decode to \<open>BC\<close> with operands \<open>15\<close> and
  \<open>0(1)\<close>, a branch whose target is \<open>None\<close>.
\<close>

theorem RX_branch_target_amended:
  "(decode_instruction data off addr = Inr (Some i) \<and> is_branch i \<and> format i = RX \<longrightarrow>
      branch_target i =
        (if hi_nibble (byte_at (raw_bytes i) 2) = 0
         then Some (int (disp12 (byte_at (raw_bytes i) 2) (byte_at (raw_bytes i) 3)))
         else None)) \<and>
   (case decode_instruction [0x47, 0xF0, 0x10, 0x00] 0 0 of
      Inr (Some j) \<Rightarrow> mnemonic j = ''BC'' \<and> operands j = [''15'', ''0(1)''] \<and>
                      is_branch j \<and> branch_target j = None
    | _ \<Rightarrow> False)"
proof
  show "decode_instruction data off addr = Inr (Some i) \<and> is_branch i \<and> format i = RX \<longrightarrow>
      branch_target i =
        (if hi_nibble (byte_at (raw_bytes i) 2) = 0
         then Some (int (disp12 (byte_at (raw_bytes i) 2) (byte_at (raw_bytes i) 3)))
         else None)"
    using RX_branch_target by blast
  show "case decode_instruction [0x47, 0xF0, 0x10, 0x00] 0 0 of
      Inr (Some j) \<Rightarrow> mnemonic j = ''BC'' \<and> operands j = [''15'', ''0(1)''] \<and>
                      is_branch j \<and> branch_target j = None
    | _ \<Rightarrow> False"
    by code_simp
qed

text \<open>
  Claim C6, as the specification states it, fails at its own example: \<open>47 F0 10 00\<close>
  does not decode to the operands \<open>15\<close>, \<open>4096(0)\<close> with target \<open>0x1000\<close>.
\<close>

theorem RX_branch_target_counterexample:
  "\<not> (case decode_instruction [0x47, 0xF0, 0x10, 0x00] 0 0 of
        Inr (Some j) \<Rightarrow> mnemonic j = ''BC'' \<and> operands j = [''15'', ''4096(0)''] \<and>
                        is_branch j \<and> branch_target j = Some 0x1000
      | _ \<Rightarrow> False)"
  by code_simp

theorem RX_branch_target_amended_witness:
  "(case decode_instruction [0x47, 0x80, 0x00, 0x14] 0 0 of
      Inr (Some i) \<Rightarrow> is_branch i \<and> format i = RX \<and> branch_target i = Some 20
    | _ \<Rightarrow> False) \<and>
   (case decode_instruction [0x47, 0x80, 0xD0, 0x20] 0 0 of
      Inr (Some i) \<Rightarrow> is_branch i \<and> format i = RX \<and> branch_target i = None
    | _ \<Rightarrow> False)"
proof -
  have "case decode_instruction [0x47, 0x80, 0x00, 0x14] 0 0 of
      Inr (Some i) \<Rightarrow> is_branch i \<and> format i = RX \<and> raw_bytes i = [0x47, 0x80, 0x00, 0x14]
    | _ \<Rightarrow> False"
    by code_simp
  then obtain i where i: "decode_instruction [0x47, 0x80, 0x00, 0x14] 0 0 = Inr (Some i)"
    and bi: "is_branch i" and fi: "format i = RX"
    and ri: "raw_bytes i = [0x47, 0x80, 0x00, 0x14]"
    by (auto split: sum.splits option.splits)
  have "case decode_instruction [0x47, 0x80, 0xD0, 0x20] 0 0 of
      Inr (Some i) \<Rightarrow> is_branch i \<and> format i = RX \<and> raw_bytes i = [0x47, 0x80, 0xD0, 0x20]
    | _ \<Rightarrow> False"
    by code_simp
  then obtain j where j: "decode_instruction [0x47, 0x80, 0xD0, 0x20] 0 0 = Inr (Some j)"
    and bj: "is_branch j" and fj: "format j = RX"
    and rj: "raw_bytes j = [0x47, 0x80, 0xD0, 0x20]"
    by (auto split: sum.splits option.splits)
  have ti: "branch_target i = Some 20"
    using RX_branch_target_amended [of "[0x47, 0x80, 0x00, 0x14]" 0 0 i] i bi fi ri
    by (simp add: hi_nibble_def disp12_def byte_at_def)
  have tj: "branch_target j = None"
    using RX_branch_target_amended [of "[0x47, 0x80, 0xD0, 0x20]" 0 0 j] j bj fj rj
    by (simp add: hi_nibble_def disp12_def byte_at_def)
  show ?thesis
    using i bi fi ti j bj fj tj by simp
qed

section \<open>The linear sweep\<close>

lemma sweep_no_error: "sweep data s \<noteq> Inl e"
proof (induction data s rule: sweep.induct)
  case (1 data s)
  show ?case
  proof (cases "offset s < length data")
    case False
    then show ?thesis by (simp add: sweep.simps)
  next
    case True
    show ?thesis
    proof (cases "decode_instruction data (offset s) (current_address s)")
      case (Inl e')
      then show ?thesis by (simp add: decode_instruction_no_error)
    next
      case (Inr r)
      show ?thesis
      proof (cases r)
        case None
        from "1.IH"(1) [OF True Inr None] True Inr None show ?thesis
          by (subst sweep.simps) simp
      next
        case (Some inst)
        from "1.IH"(2) [OF True Inr Some] True Inr Some show ?thesis
          by (subst sweep.simps) simp
      qed
    qed
  qed
qed

lemma unknown_total_flush:
  "unknown_total (flush_unknown s) = unknown_total (regions_acc s) + pending s"
  by (simp add: flush_unknown_def unknown_total_def pending_def region_size_def
      split: option.splits)

lemma sweep_covered:
  "sweep data s = Inr s' \<Longrightarrow> offset s \<le> length data \<Longrightarrow>
     covered s' = covered s + int (length data - offset s)"
proof (induction data s rule: sweep.induct)
  case (1 data s)
  show ?case
  proof (cases "offset s < length data")
    case False
    with "1.prems" show ?thesis by (simp add: sweep.simps)
  next
    case True
    show ?thesis
    proof (cases "decode_instruction data (offset s) (current_address s)")
      case (Inl e')
      then show ?thesis by (simp add: decode_instruction_no_error)
    next
      case (Inr r)
      show ?thesis
      proof (cases r)
        case None
        let ?s1 = "\<lparr> offset = offset s + 1,
                          current_address = current_address s + 1,
                          unknown_start = (if unknown_start s = None
                                           then Some (current_address s)
                                           else unknown_start s),
                          unknown_acc = unknown_acc s @ py_slice data (offset s) (offset s + 1),
                          insts_acc = insts_acc s,
                          regions_acc = regions_acc s \<rparr>"
        have step: "sweep data s = sweep data ?s1"
          using True Inr None by (subst sweep.simps) simp
        have le: "offset ?s1 \<le> length data" using True by simp
        have "covered s' = covered ?s1 + int (length data - offset ?s1)"
          using "1.IH"(1) [OF True Inr None] "1.prems"(1) step le by simp
        moreover have "covered ?s1 = covered s + 1"
          by (simp add: covered_def pending_def split: option.splits)
        ultimately show ?thesis using True by simp
      next
        case (Some inst)
        let ?n = "length (raw_bytes inst)"
        let ?s1 = "\<lparr> offset = offset s + ?n,
                          current_address = current_address s + int ?n,
                          unknown_start = None,
                          unknown_acc = [],
                          insts_acc = insts_acc s @ [inst],
                          regions_acc = flush_unknown s \<rparr>"
        have d: "decode_instruction data (offset s) (current_address s) = Inr (Some inst)"
          using Inr Some by simp
        have step: "sweep data s = sweep data ?s1"
          using True d by (subst sweep.simps) simp
        have le: "offset ?s1 \<le> length data"
          using decode_instruction_SomeD(2) [OF d] decode_instruction_length [OF d] by simp
        have "covered s' = covered ?s1 + int (length data - offset ?s1)"
          using "1.IH"(2) [OF True Inr Some] "1.prems"(1) step le by simp
        moreover have "covered ?s1 = covered s + int ?n"
          by (simp add: covered_def unknown_total_flush decoded_total_def)
            (simp add: pending_def)
        ultimately show ?thesis using le by simp
      qed
    qed
  qed
qed

text \<open>
  Claim C10. For every input buffer, base address and metadata the disassembler returns
  a result (it neither raises nor loops), and the linear sweep partitions the buffer
  exactly: the raw-byte lengths of the emitted instructions plus the sizes
  \<open>end - start + 1\<close> of the unknown regions add up to the buffer length, and so do
  the statistics \<open>decoded_bytes\<close> and \<open>unknown_bytes\<close>.
\<close>

theorem disassemble_partitions_buffer:
  "\<exists>r. disassemble data base md = Inr r \<and>
     int (decoded_total (dr_instructions r)) + unknown_total (unknown_regions r) =
       int (length data) \<and>
     int (decoded_bytes (dr_statistics r)) + unknown_bytes (dr_statistics r) =
       int (length data)"
proof -
  obtain s' where s': "sweep data (initial_sweep_state base) = Inr s'"
    using sweep_no_error [of data "initial_sweep_state base"]
    by (cases "sweep data (initial_sweep_state base)") auto
  have "covered s' = covered (initial_sweep_state base) + int (length data - 0)"
    using sweep_covered [OF s'] by (simp add: initial_sweep_state_def)
  then have c: "covered s' = int (length data)"
    by (simp add: covered_def initial_sweep_state_def decoded_total_def unknown_total_def pending_def)
  have "int (decoded_total (insts_acc s')) + unknown_total (flush_unknown s') = int (length data)"
    using c by (simp add: covered_def unknown_total_flush)
  then show ?thesis
    using s' by (simp add: disassemble_def Let_def generate_statistics_def
        decoded_total_def unknown_total_def)
qed

section \<open>The CFG builder\<close>

lemma create_blocks_loop_cases:
  "create_blocks_loop insts ls blocks = Inl AttributeError \<or>
   create_blocks_loop insts ls blocks = Inr blocks"
  by (induction ls arbitrary: blocks) (auto simp: Let_def dict_append_def)

lemma build_cfg_cases:
  "build_cfg dr = Inl AttributeError \<or> build_cfg dr = Inl UnboundLocalError"
  using create_blocks_loop_cases [of "dr_instructions dr"
      "sort (find_leaders (dr_instructions dr) (entry_points (cfg dr)))" "[]"]
  by (auto simp: build_cfg_def Let_def create_basic_blocks_def add_control_flow_edges_def)

text \<open>
  Claim C1 at the code. \<^verbatim>\<open>build_cfg\<close> returns normally for no disassembly result
  at all: it raises \<^verbatim>\<open>AttributeError\<close> when the first non-empty block is appended
  to the dictionary \<^verbatim>\<open>self.blocks\<close>, and \<^verbatim>\<open>UnboundLocalError\<close> otherwise. The one
  instruction \<open>07 FE\<close> (one leader) gives the first, the empty instruction stream the
  second.
\<close>

theorem build_cfg_always_raises:
  "(build_cfg dr = Inl AttributeError \<or> build_cfg dr = Inl UnboundLocalError) \<and>
   (case disassemble [0x07, 0xFE] 0 None of
      Inr r \<Rightarrow> length (dr_instructions r) = 1 \<and> build_cfg r = Inl AttributeError
    | Inl _ \<Rightarrow> False) \<and>
   (case disassemble [] 0 None of
      Inr r \<Rightarrow> dr_instructions r = [] \<and> build_cfg r = Inl UnboundLocalError
    | Inl _ \<Rightarrow> False)"
proof (intro conjI)
  show "build_cfg dr = Inl AttributeError \<or> build_cfg dr = Inl UnboundLocalError"
    by (rule build_cfg_cases)
  show "case disassemble [0x07, 0xFE] 0 None of
      Inr r \<Rightarrow> length (dr_instructions r) = 1 \<and> build_cfg r = Inl AttributeError
    | Inl _ \<Rightarrow> False"
    by code_simp
  show "case disassemble [] 0 None of
      Inr r \<Rightarrow> dr_instructions r = [] \<and> build_cfg r = Inl UnboundLocalError
    | Inl _ \<Rightarrow> False"
    by code_simp
qed

text \<open>
  Claim C5 at the program of \<^verbatim>\<open>test_cfg_builder\<close>. The disassembler yields seven
  instructions and \<^verbatim>\<open>_find_leaders\<close> the leaders 0, 2 and 10, but \<^verbatim>\<open>build_cfg\<close>
  raises \<^verbatim>\<open>AttributeError\<close> while storing the first block: no block, successor or
  predecessor set is ever produced, so there are no edges to be symmetric.
\<close>

theorem branch_program_build_cfg_raises:
  "(case disassemble branch_program 0 None of
      Inr r \<Rightarrow> length (dr_instructions r) = 7 \<and>
               sort (find_leaders (dr_instructions r) (entry_points (cfg r))) = [0, 2, 10] \<and>
               build_cfg r = Inl AttributeError
    | Inl _ \<Rightarrow> False)"
  by code_simp

section \<open>Ingestion and the sample program\<close>

lemma code_end_detect_format:
  "code_end ing \<le> length (file_data ing) \<Longrightarrow>
   code_end (detect_format ing) \<le> length (file_data ing)"
  by (simp add: detect_format_def parse_program_object_def parse_load_module_def
      apply_heuristics_def set_format_def Let_def)

lemma file_data_detect_format: "file_data (detect_format ing) = file_data ing"
  by (simp add: detect_format_def parse_program_object_def parse_load_module_def
      apply_heuristics_def set_format_def Let_def)

lemma name_detect_format: "name (ing_metadata (detect_format ing)) = name (ing_metadata ing)"
  by (simp add: detect_format_def parse_program_object_def parse_load_module_def
      apply_heuristics_def set_format_def Let_def)

lemma format_type_detect_format:
  "format_type (ing_metadata (detect_format ing)) \<in>
     set [''program_object'', ''load_module'', ''unknown'']"
  by (simp add: detect_format_def parse_program_object_def parse_load_module_def
      apply_heuristics_def set_format_def Let_def)

text \<open>
  Claim C8, as the code has it. A byte source shorter than 8 bytes makes
  \<^verbatim>\<open>load_file\<close> return \<^verbatim>\<open>False\<close>: nothing is raised, and the code has no
  \<^verbatim>\<open>FormatError\<close>. A source of 8 bytes or more is always loaded: \<^verbatim>\<open>load_file\<close>
  returns \<^verbatim>\<open>True\<close>, the metadata record carries the file's stem as name and one of
  the three format tags, and the code bytes are the slice
  \<^verbatim>\<open>data[code_start:code_end]\<close> of the file with \<open>code_end \<le> len(data)\<close>.
\<close>

theorem load_file_amended:
  "(length content < 8 \<longrightarrow>
      (\<exists>ing. load_file stem (Inr content) new_ingestor = Inr (False, ing))) \<and>
   (8 \<le> length content \<longrightarrow>
      (\<exists>ing. load_file stem (Inr content) new_ingestor = Inr (True, ing) \<and>
             name (get_metadata ing) = Some stem \<and>
             format_type (get_metadata ing) \<in>
               set [''program_object'', ''load_module'', ''unknown''] \<and>
             code_end ing \<le> length content \<and>
             get_code_bytes ing = py_slice content (code_start ing) (code_end ing)))"
proof (intro conjI impI)
  assume "length content < 8"
  then show "\<exists>ing. load_file stem (Inr content) new_ingestor = Inr (False, ing)"
    by (simp add: load_file_def Let_def)
next
  assume len: "8 \<le> length content"
  let ?ing = "new_ingestor\<lparr> file_data := content,
                ing_metadata := (ing_metadata new_ingestor)\<lparr> name := Some stem \<rparr> \<rparr>"
  have ld: "load_file stem (Inr content) new_ingestor = Inr (True, detect_format ?ing)"
    using len by (simp add: load_file_def Let_def)
  have "code_end (detect_format ?ing) \<le> length (file_data ?ing)"
    by (rule code_end_detect_format) (simp add: new_ingestor_def)
  then have ce: "code_end (detect_format ?ing) \<le> length content" by simp
  have nm: "name (get_metadata (detect_format ?ing)) = Some stem"
    by (simp add: get_metadata_def name_detect_format)
  have cb: "get_code_bytes (detect_format ?ing) =
              py_slice content (code_start (detect_format ?ing)) (code_end (detect_format ?ing))"
    by (simp add: get_code_bytes_def file_data_detect_format)
  have ft: "format_type (get_metadata (detect_format ?ing)) \<in>
              set [''program_object'', ''load_module'', ''unknown'']"
    unfolding get_metadata_def by (rule format_type_detect_format)
  show "\<exists>ing. load_file stem (Inr content) new_ingestor = Inr (True, ing) \<and>
             name (get_metadata ing) = Some stem \<and>
             format_type (get_metadata ing) \<in>
               set [''program_object'', ''load_module'', ''unknown''] \<and>
             code_end ing \<le> length content \<and>
             get_code_bytes ing = py_slice content (code_start ing) (code_end ing)"
    using ld ce nm cb ft by blast
qed

theorem load_file_amended_witness:
  "(\<exists>ing. load_file ''short'' (Inr [0x47, 0xF0, 0x00]) new_ingestor = Inr (False, ing)) \<and>
   (\<exists>ing. load_file ''test_program'' (Inr simple_program) new_ingestor = Inr (True, ing) \<and>
          name (get_metadata ing) = Some ''test_program'')"
proof -
  have short: "length [0x47, 0xF0, 0x00 :: byte] < 8" by simp
  have long: "8 \<le> length simple_program" by (simp add: simple_program_def)
  from load_file_amended [of "[0x47, 0xF0, 0x00]" "''short''"] short
  have a: "\<exists>ing. load_file ''short'' (Inr [0x47, 0xF0, 0x00]) new_ingestor = Inr (False, ing)"
    by blast
  from load_file_amended [of simple_program "''test_program''"] long
  have b: "\<exists>ing. load_file ''test_program'' (Inr simple_program) new_ingestor = Inr (True, ing) \<and>
          name (get_metadata ing) = Some ''test_program''"
    by blast
  from a b show ?thesis by blast
qed

text \<open>
  Claim C8, as the specification states it, fails on a 3-byte source: the outcome of
  \<^verbatim>\<open>load_file\<close> is the return value \<^verbatim>\<open>False\<close>, not a raised \<^verbatim>\<open>FormatError\<close>.
\<close>

theorem load_file_counterexample:
  "load_file ''short'' (Inr [0x47, 0xF0, 0x00]) new_ingestor \<noteq> Inl FormatError \<and>
   load_file ''short'' (Inr [0x47, 0xF0, 0x00]) new_ingestor =
     Inr (False, new_ingestor\<lparr> file_data := [0x47, 0xF0, 0x00] \<rparr>)"
  by (simp add: load_file_def Let_def)

text \<open>
  Claim C3 at its input. The ingestor loads the 28 bytes with code start 0, and the
  disassembler produces 8 instructions with decode rate 1. But \<^verbatim>\<open>build_cfg\<close>
  raises \<^verbatim>\<open>AttributeError\<close>, so there is no basic block and no procedure; and the
  \<open>STM\<close> at address 2 (opcode \<open>0x90\<close>) is decoded in SI format with the operands
  \<open>X'EC'\<close> and \<open>12(13)\<close>, so no instruction satisfies the prologue test
  \<^verbatim>\<open>operands[0] == "14"\<close>.
\<close>

theorem simple_program_analysis:
  "(case load_file ''test_program'' (Inr simple_program) new_ingestor of
      Inr (loaded, ing) \<Rightarrow>
        loaded \<and> code_start ing = 0 \<and>
        (case disassemble (get_code_bytes ing) (int (code_start ing))
                (Some (get_metadata ing)) of
           Inr r \<Rightarrow>
             length (dr_instructions r) = 8 \<and>
             decode_rate (dr_statistics r) = 1 \<and>
             map mnemonic (dr_instructions r) =
               [''BALR'', ''STM'', ''LA'', ''L'', ''A'', ''ST'', ''LM'', ''BCR''] \<and>
             operands (dr_instructions r ! 1) =
               [''X'' @ [CHR 0x27] @ ''EC'' @ [CHR 0x27], ''12(13)''] \<and>
             \<not> list_ex prologue_pattern (dr_instructions r) \<and>
             build_cfg r = Inl AttributeError
         | Inl _ \<Rightarrow> False)
    | Inl _ \<Rightarrow> False)"
  by code_simp

section \<open>The region classifier\<close>










text \<open>The disassembler's instruction list is always laid out in address order without
  overlap.\<close>

lemma laid_out_snoc:
  "laid_out (xs @ [x]) =
     (laid_out xs \<and>
      (xs \<noteq> [] \<longrightarrow> raw_bytes (last xs) \<noteq> [] \<and>
         address (last xs) + int (length (raw_bytes (last xs))) \<le> address x))"
  by (induction xs rule: laid_out.induct) auto

lemma decode_instruction_nonempty:
  assumes "decode_instruction data off addr = Inr (Some i)"
  shows "raw_bytes i \<noteq> []"
proof -
  have "get_instruction_length (byte_at data off) \<in> {2, 4, 6}"
    by (rule get_instruction_length_cases)
  with decode_instruction_length [OF assms] have "length (raw_bytes i) \<noteq> 0" by auto
  then show ?thesis by simp
qed

lemma sweep_preserves_inv:
  "sweep data s = Inr s' \<Longrightarrow> sweep_inv s \<Longrightarrow> sweep_inv s'"
proof (induction data s rule: sweep.induct)
  case (1 data s)
  show ?case
  proof (cases "offset s < length data")
    case False
    with "1.prems" show ?thesis by (simp add: sweep.simps)
  next
    case True
    show ?thesis
    proof (cases "decode_instruction data (offset s) (current_address s)")
      case (Inl e')
      then show ?thesis by (simp add: decode_instruction_no_error)
    next
      case (Inr r)
      show ?thesis
      proof (cases r)
        case None
        let ?s1 = "\<lparr> offset = offset s + 1,
                          current_address = current_address s + 1,
                          unknown_start = (if unknown_start s = None
                                           then Some (current_address s)
                                           else unknown_start s),
                          unknown_acc = unknown_acc s @ py_slice data (offset s) (offset s + 1),
                          insts_acc = insts_acc s,
                          regions_acc = regions_acc s \<rparr>"
        have step: "sweep data s = sweep data ?s1"
          using True Inr None by (subst sweep.simps) simp
        have "sweep_inv ?s1" using "1.prems"(2) by (auto simp: sweep_inv_def)
        with "1.IH"(1) [OF True Inr None] "1.prems"(1) step show ?thesis by simp
      next
        case (Some inst)
        let ?n = "length (raw_bytes inst)"
        let ?s1 = "\<lparr> offset = offset s + ?n,
                          current_address = current_address s + int ?n,
                          unknown_start = None,
                          unknown_acc = [],
                          insts_acc = insts_acc s @ [inst],
                          regions_acc = flush_unknown s \<rparr>"
        have d: "decode_instruction data (offset s) (current_address s) = Inr (Some inst)"
          using Inr Some by simp
        have step: "sweep data s = sweep data ?s1"
          using True d by (subst sweep.simps) simp
        have "sweep_inv ?s1"
          using "1.prems"(2) decode_instruction_SomeD(5) [OF d] decode_instruction_nonempty [OF d]
          by (auto simp: sweep_inv_def laid_out_snoc)
        with "1.IH"(2) [OF True Inr Some] "1.prems"(1) step show ?thesis by simp
      qed
    qed
  qed
qed

lemma disassemble_laid_out:
  "disassemble data base md = Inr r \<Longrightarrow> laid_out (dr_instructions r)"
proof -
  assume a: "disassemble data base md = Inr r"
  then obtain s' where s': "sweep data (initial_sweep_state base) = Inr s'"
    and r: "dr_instructions r = insts_acc s'"
    by (auto simp: disassemble_def Let_def split: sum.splits)
  have "sweep_inv (initial_sweep_state base)"
    by (simp add: sweep_inv_def initial_sweep_state_def)
  from sweep_preserves_inv [OF s' this] r show ?thesis
    by (simp add: sweep_inv_def)
qed





end
